theory Spec2Isabelle
  imports Complex_Main "HOL-Library.Sublist"
begin

section \<open>Numbers as the dashboard uses them\<close>

text \<open>
  A JavaScript \<^verbatim>\<open>number\<close> that reaches \<^verbatim>\<open>formatUptime\<close> is either a finite value or
  \<^verbatim>\<open>NaN\<close> (what the arithmetic operators make of \<^verbatim>\<open>undefined\<close>). Every finite double
  is a rational number, so a finite value is modelled as a \<^typ>\<open>rat\<close>. The arithmetic below
  is exact: the rounding of IEEE-754 division and the two infinities (which only an
  overflowing literal such as \<^verbatim>\<open>1e999\<close> produces) are outside this model.
\<close>

datatype number = NaN | Num rat

text \<open>\<^verbatim>\<open>ToNumber\<close> of a property read: an absent property reads as \<^verbatim>\<open>undefined\<close>.\<close>

definition ToNumber :: "number option \<Rightarrow> number" where
  "ToNumber v = (case v of None \<Rightarrow> NaN | Some n \<Rightarrow> n)"

text \<open>Rounding towards zero, the integer quotient that \<^verbatim>\<open>%\<close> uses.\<close>

definition trunc :: "rat \<Rightarrow> int" where
  "trunc q = (if q < 0 then \<lceil>q\<rceil> else \<lfloor>q\<rfloor>)"

text \<open>
  The operators \<^verbatim>\<open>/\<close> and \<^verbatim>\<open>%\<close> with a numeric literal on the right (3600 and 60 in the
  source, never zero). The remainder takes the sign of the dividend.
\<close>

definition js_rem :: "rat \<Rightarrow> rat \<Rightarrow> rat" where
  "js_rem n d = n - d * of_int (trunc (n / d))"

definition number_div :: "number \<Rightarrow> rat \<Rightarrow> number" where
  "number_div v d = (case v of NaN \<Rightarrow> NaN | Num x \<Rightarrow> Num (x / d))"

definition number_rem :: "number \<Rightarrow> rat \<Rightarrow> number" where
  "number_rem v d = (case v of NaN \<Rightarrow> NaN | Num x \<Rightarrow> Num (js_rem x d))"

definition Math_floor :: "number \<Rightarrow> number" where
  "Math_floor v = (case v of NaN \<Rightarrow> NaN | Num x \<Rightarrow> Num (of_int \<lfloor>x\<rfloor>))"

text \<open>Decimal digits of a natural number, most significant first.\<close>

definition digit :: "nat \<Rightarrow> char" where
  "digit d = ''0123456789'' ! d"

function digits :: "nat \<Rightarrow> string" where
  "digits n = (if n < 10 then [digit n] else digits (n div 10) @ [digit (n mod 10)])"
  by pat_completeness auto
termination
  by (relation "measure id") auto

declare digits.simps [simp del]

definition show_int :: "int \<Rightarrow> string" where
  "show_int i = (if i < 0 then CHR ''-'' # digits (nat (- i)) else digits (nat i))"

text \<open>
  How a template literal renders a number. The source applies it to results of
  \<^verbatim>\<open>Math.floor\<close> only, that is to integers and \<^verbatim>\<open>NaN\<close>; an integer below \<open>10\<^sup>2\<^sup>1\<close> in
  magnitude is rendered by its decimal digits.
\<close>

definition ToString :: "number \<Rightarrow> string" where
  "ToString v = (case v of NaN \<Rightarrow> ''NaN'' | Num x \<Rightarrow> show_int \<lfloor>x\<rfloor>)"

definition formatUptime :: "number \<Rightarrow> string" where
  "formatUptime seconds =
    (let hours = Math_floor (number_div seconds 3600);
         minutes = Math_floor (number_div (number_rem seconds 3600) 60);
         secs = Math_floor (number_rem seconds 60)
     in ToString hours @ ''h '' @ ToString minutes @ ''m '' @ ToString secs @ ''s'')"





section \<open>The component's state and the health check\<close>

text \<open>
  The payload at the type the source declares for it. A field a parsed body lacks reads
  as \<^verbatim>\<open>undefined\<close>, here \<open>None\<close>.
\<close>

record HealthCheck =
  status :: "string option"
  timestamp :: "string option"
  uptime :: "number option"
  message :: "string option"
  environment :: "string option"

text \<open>The three \<^verbatim>\<open>useState\<close> cells of \<^verbatim>\<open>App\<close>; \<^verbatim>\<open>null\<close> is \<open>None\<close>.\<close>

record app_state =
  healthData :: "HealthCheck option"
  loading :: bool
  error :: "string option"

definition setHealthData :: "HealthCheck option \<Rightarrow> app_state \<Rightarrow> app_state" where
  "setHealthData v s = s\<lparr>healthData := v\<rparr>"

definition setLoading :: "bool \<Rightarrow> app_state \<Rightarrow> app_state" where
  "setLoading v s = s\<lparr>loading := v\<rparr>"

definition setError :: "string option \<Rightarrow> app_state \<Rightarrow> app_state" where
  "setError v s = s\<lparr>error := v\<rparr>"

text \<open>
  A thrown value: an instance of \<^verbatim>\<open>Error\<close> with its message, or anything else.
\<close>

datatype thrown = Error string | NonError

text \<open>
  What \<^verbatim>\<open>fetch\<close> settles with. A response carries its status code and what
  \<^verbatim>\<open>response.json()\<close> will settle with: the parsed payload, or the value it rejects with.
  \<^verbatim>\<open>response.ok\<close> is true exactly for the status codes 200 to 299.
\<close>

record response =
  http_status :: nat
  json :: "thrown + HealthCheck"

definition ok :: "response \<Rightarrow> bool" where
  "ok r = (200 \<le> http_status r \<and> http_status r \<le> 299)"

datatype settlement = Rejected thrown | Fulfilled response

text \<open>
  Statements complete normally (\<open>None\<close>) or abruptly with a thrown value, and leave a
  state behind either way. \<^verbatim>\<open>try\<close>/\<^verbatim>\<open>catch\<close>/\<^verbatim>\<open>finally\<close>: the handler runs on a throw
  of the body, the finaliser always runs, and a throw of the finaliser replaces an
  earlier completion.
\<close>

type_synonym 's stmt = "'s \<Rightarrow> thrown option \<times> 's"

definition try_catch_finally :: "'s stmt \<Rightarrow> (thrown \<Rightarrow> 's stmt) \<Rightarrow> 's stmt \<Rightarrow> 's stmt" where
  "try_catch_finally body handler finaliser s =
    (let (r1, s1) = body s;
         (r2, s2) = (case r1 of None \<Rightarrow> (None, s1) | Some e \<Rightarrow> handler e s1);
         (r3, s3) = finaliser s2
     in (case r3 of None \<Rightarrow> (r2, s3) | Some e \<Rightarrow> (Some e, s3)))"

text \<open>The body of the \<^verbatim>\<open>try\<close>, from the point where the promise of \<^verbatim>\<open>fetch\<close> settles.\<close>

definition try_block :: "settlement \<Rightarrow> app_state stmt" where
  "try_block out s =
    (case out of
       Rejected e \<Rightarrow> (Some e, s)
     | Fulfilled r \<Rightarrow>
         if \<not> ok r then (Some (Error (''HTTP error! status: '' @ digits (http_status r))), s)
         else (case json r of
                 Inl e \<Rightarrow> (Some e, s)
               | Inr data \<Rightarrow> (None, setHealthData (Some data) s)))"

definition catch_block :: "thrown \<Rightarrow> app_state stmt" where
  "catch_block err s =
    (None, setHealthData None
             (setError (Some (case err of Error m \<Rightarrow> m
                                        | NonError \<Rightarrow> ''An unknown error occurred'')) s))"

definition finally_block :: "app_state stmt" where
  "finally_block s = (None, setLoading False s)"

text \<open>
  \<^verbatim>\<open>checkHealth\<close> runs in two pieces: the statements before the first \<^verbatim>\<open>await\<close>, and the
  rest once the call has settled. Nothing is written to the state between the two
  \<^verbatim>\<open>await\<close>s of the body, so one settlement stands for both.
\<close>

definition checkHealth_begin :: "app_state \<Rightarrow> app_state" where
  "checkHealth_begin s = setError None (setLoading True s)"

definition checkHealth_resume :: "settlement \<Rightarrow> app_state stmt" where
  "checkHealth_resume out = try_catch_finally (try_block out) catch_block finally_block"

definition checkHealth :: "settlement \<Rightarrow> app_state stmt" where
  "checkHealth out s = checkHealth_resume out (checkHealth_begin s)"

section \<open>The request\<close>

record request =
  url :: string
  http_method :: string
  headers :: "(string \<times> string) list"

text \<open>The base URL: the build-time variable, or the default when it is unset or empty.\<close>

definition BACKEND_URL :: "string option \<Rightarrow> string" where
  "BACKEND_URL env =
    (case env of None \<Rightarrow> ''http://localhost:8000''
     | Some u \<Rightarrow> if u = [] then ''http://localhost:8000'' else u)"

definition health_request :: "string option \<Rightarrow> request" where
  "health_request env =
    \<lparr>url = BACKEND_URL env @ ''/api/health'',
     http_method = ''GET'',
     headers = [(''Content-Type'', ''application/json'')]\<rparr>"

section \<open>What the component renders\<close>

text \<open>
  The text a JSX expression contributes: nothing for \<^verbatim>\<open>undefined\<close>. The time of day is
  left symbolic, since it depends on the viewer's locale; a date built from \<^verbatim>\<open>undefined\<close>
  is invalid whatever the locale.
\<close>

definition jsx_text :: "string option \<Rightarrow> string" where
  "jsx_text v = (case v of None \<Rightarrow> [] | Some t \<Rightarrow> t)"

datatype time_text = Invalid_Date | toLocaleTimeString string

record health_panel =
  heading :: string
  environment_text :: string
  uptime_text :: string
  last_check :: time_text
  message_text :: string

record view =
  button_disabled :: bool
  button_label :: string
  error_panel :: "string option"
  report_panel :: "health_panel option"
  backend_url_text :: string

definition render_report :: "HealthCheck \<Rightarrow> health_panel" where
  "render_report d =
    \<lparr>heading = ''Backend Status: '' @ jsx_text (status d),
     environment_text = jsx_text (environment d),
     uptime_text = formatUptime (ToNumber (uptime d)),
     last_check = (case timestamp d of None \<Rightarrow> Invalid_Date | Some t \<Rightarrow> toLocaleTimeString t),
     message_text = jsx_text (message d)\<rparr>"

text \<open>\<^verbatim>\<open>error && ...\<close> shows the panel for a truthy string: neither \<^verbatim>\<open>null\<close> nor empty.\<close>

definition App :: "string option \<Rightarrow> app_state \<Rightarrow> view" where
  "App env s =
    \<lparr>button_disabled = loading s,
     button_label = (if loading s then ''Checking...'' else ''Check Backend Health''),
     error_panel = (case error s of None \<Rightarrow> None | Some m \<Rightarrow> if m = [] then None else Some m),
     report_panel = map_option render_report (healthData s),
     backend_url_text = BACKEND_URL env\<rparr>"

section \<open>The dashboard over time\<close>

text \<open>
  The page together with the network: the requests issued so far, the calls not yet
  settled, and the values that escaped an invocation of \<^verbatim>\<open>checkHealth\<close>. A click reaches
  \<^verbatim>\<open>checkHealth\<close> only through the button, which is disabled while loading.
\<close>

record world =
  ui :: app_state
  sent :: "request list"
  in_flight :: nat
  unhandled :: "thrown list"

datatype event = Click | Settle settlement

definition world0 :: world where
  "world0 = \<lparr>ui = \<lparr>healthData = None, loading = False, error = None\<rparr>,
             sent = [], in_flight = 0, unhandled = []\<rparr>"

text \<open>
  The call \<^verbatim>\<open>fetch(...)\<close> puts a request on the network and leaves it outstanding. An
  invocation of \<^verbatim>\<open>checkHealth\<close> runs up to that call and then waits.
\<close>

definition fetch :: "request \<Rightarrow> world \<Rightarrow> world" where
  "fetch rq w = w\<lparr>sent := sent w @ [rq], in_flight := Suc (in_flight w)\<rparr>"

definition checkHealth_call :: "string option \<Rightarrow> world \<Rightarrow> world" where
  "checkHealth_call env w = fetch (health_request env) (w\<lparr>ui := checkHealth_begin (ui w)\<rparr>)"

definition click :: "string option \<Rightarrow> world \<Rightarrow> world" where
  "click env w = (if button_disabled (App env (ui w)) then w else checkHealth_call env w)"

text \<open>
  The outstanding call settles and the waiting invocation runs to its end. A value it
  throws has no handler above it and is recorded as escaped.
\<close>

definition settle :: "settlement \<Rightarrow> world \<Rightarrow> world" where
  "settle out w =
    (if in_flight w = 0 then w
     else (let (r, s) = checkHealth_resume out (ui w)
           in w\<lparr>ui := s,
                in_flight := in_flight w - 1,
                unhandled := (case r of None \<Rightarrow> unhandled w | Some e \<Rightarrow> unhandled w @ [e])\<rparr>))"

fun step :: "string option \<Rightarrow> event \<Rightarrow> world \<Rightarrow> world" where
  "step env Click w = click env w"
| "step env (Settle out) w = settle out w"

fun run :: "string option \<Rightarrow> event list \<Rightarrow> world \<Rightarrow> world" where
  "run env [] w = w"
| "run env (e # es) w = run env es (step env e w)"

text \<open>
  What holds of the page and the network together at every moment: a call is outstanding
  exactly while the page is loading, nothing has escaped an invocation, no error is held
  while loading, and an error and a report are never held together.
\<close>

definition dashboard_invariant :: "world \<Rightarrow> bool" where
  "dashboard_invariant w =
    (in_flight w = (if loading (ui w) then 1 else 0) \<and> unhandled w = []
     \<and> (loading (ui w) \<longrightarrow> error (ui w) = None)
     \<and> (error (ui w) = None \<or> healthData (ui w) = None))"

section \<open>Auxiliary facts\<close>




lemma checkHealth_begin_eq:
  "checkHealth_begin s = \<lparr>healthData = healthData s, loading = True, error = None\<rparr>"
  by (cases s) (simp add: checkHealth_begin_def setError_def setLoading_def)

lemma resume_rejected:
  "checkHealth_resume (Rejected e) s =
    (None, \<lparr>healthData = None, loading = False,
            error = Some (case e of Error m \<Rightarrow> m | NonError \<Rightarrow> ''An unknown error occurred'')\<rparr>)"
  by (cases s)
    (simp add: checkHealth_resume_def try_catch_finally_def try_block_def catch_block_def
      finally_block_def setError_def setLoading_def setHealthData_def)

lemma resume_not_ok:
  "\<not> ok r \<Longrightarrow> checkHealth_resume (Fulfilled r) s =
    (None, \<lparr>healthData = None, loading = False,
            error = Some (''HTTP error! status: '' @ digits (http_status r))\<rparr>)"
  by (cases s)
    (simp add: checkHealth_resume_def try_catch_finally_def try_block_def catch_block_def
      finally_block_def setError_def setLoading_def setHealthData_def)


lemma resume_success:
  "ok r \<Longrightarrow> json r = Inr d \<Longrightarrow> checkHealth_resume (Fulfilled r) s =
    (None, \<lparr>healthData = Some d, loading = False, error = error s\<rparr>)"
  by (cases s)
    (simp add: checkHealth_resume_def try_catch_finally_def try_block_def catch_block_def
      finally_block_def setError_def setLoading_def setHealthData_def)

lemma try_block_state: "fst (try_block out s) = fst (try_block out s')"
  by (simp add: try_block_def split: settlement.splits sum.splits)

lemma resume_cases:
  "checkHealth_resume out s =
    (case fst (try_block out s) of
       None \<Rightarrow> (None, \<lparr>healthData = healthData (snd (try_block out s)), loading = False, error = error s\<rparr>)
     | Some e \<Rightarrow> (None, \<lparr>healthData = None, loading = False,
            error = Some (case e of Error m \<Rightarrow> m | NonError \<Rightarrow> ''An unknown error occurred'')\<rparr>))"
  by (cases s)
    (simp add: checkHealth_resume_def try_catch_finally_def try_block_def catch_block_def
      finally_block_def setError_def setLoading_def setHealthData_def
      split: settlement.splits sum.splits)






lemma formatUptime_3665: "formatUptime (Num 3665) = ''1h 1m 5s''"
  by code_simp



lemma checkHealth_cases:
  "checkHealth out s =
    (case fst (try_block out s) of
       None \<Rightarrow> (None, \<lparr>healthData = healthData (snd (try_block out s)), loading = False, error = None\<rparr>)
     | Some e \<Rightarrow> (None, \<lparr>healthData = None, loading = False,
            error = Some (case e of Error m \<Rightarrow> m | NonError \<Rightarrow> ''An unknown error occurred'')\<rparr>))"
  by (cases s)
    (simp add: checkHealth_def checkHealth_begin_def checkHealth_resume_def try_catch_finally_def try_block_def catch_block_def
      finally_block_def setError_def setLoading_def setHealthData_def
      split: settlement.splits sum.splits)

lemma checkHealth_state_free: "checkHealth out s = checkHealth out s'"
  by (simp add: checkHealth_cases try_block_def setHealthData_def
      split: settlement.splits sum.splits)

lemma digits_403: "digits 403 = ''403''"
  by code_simp



lemma resume_loading: "\<not> loading (snd (checkHealth_resume out s))"
  by (simp add: resume_cases split: option.splits)

lemma resume_normal: "fst (checkHealth_resume out s) = None"
  by (simp add: resume_cases split: option.splits)

lemma resume_exclusive:
  "error s = None \<Longrightarrow>
    error (snd (checkHealth_resume out s)) = None \<or> healthData (snd (checkHealth_resume out s)) = None"
  by (simp add: resume_cases split: option.splits)

lemma settle_eq:
  "settle out w =
    (if in_flight w = 0 then w
     else w\<lparr>ui := snd (checkHealth_resume out (ui w)), in_flight := in_flight w - 1\<rparr>)"
  by (cases "checkHealth_resume out (ui w)") (use resume_normal [of out "ui w"] in \<open>simp add: settle_def\<close>)

lemma invariant_world0: "dashboard_invariant world0"
  by (simp add: dashboard_invariant_def world0_def)

lemma invariant_click: "dashboard_invariant w \<Longrightarrow> dashboard_invariant (click env w)"
  by (simp add: dashboard_invariant_def click_def checkHealth_call_def fetch_def App_def checkHealth_begin_eq)

lemma invariant_settle:
  assumes "dashboard_invariant w" shows "dashboard_invariant (settle out w)"
proof (cases "in_flight w = 0")
  case True
  with assms show ?thesis by (simp add: settle_def)
next
  case False
  with assms have l: "loading (ui w)" and u: "unhandled w = []" and i: "in_flight w = 1"
    by (auto simp: dashboard_invariant_def split: if_splits)
  from l assms have e: "error (ui w) = None"
    by (simp add: dashboard_invariant_def)
  obtain r s where rs: "checkHealth_resume out (ui w) = (r, s)"
    by (cases "checkHealth_resume out (ui w)")
  have "r = None" using resume_normal [of out "ui w"] rs by simp
  moreover have "\<not> loading s" using resume_loading [of out "ui w"] rs by simp
  moreover have "error s = None \<or> healthData s = None"
    using rs resume_exclusive [OF e, of out] by simp
  ultimately show ?thesis
    using False u i rs by (simp add: settle_def dashboard_invariant_def)
qed

lemma invariant_step: "dashboard_invariant w \<Longrightarrow> dashboard_invariant (step env e w)"
  by (cases e) (simp_all add: invariant_click invariant_settle)

lemma invariant_run: "dashboard_invariant w \<Longrightarrow> dashboard_invariant (run env es w)"
  by (induction es arbitrary: w) (simp_all add: invariant_step)

lemma invariant_reachable: "dashboard_invariant (run env es world0)"
  by (rule invariant_run [OF invariant_world0])

lemma click_then_settle:
  assumes "\<not> loading (ui w)"
  shows "ui (settle out (click env w)) = snd (checkHealth out (ui w))"
    and "\<not> loading (ui (settle out (click env w)))"
proof -
  have c: "click env w =
      w\<lparr>ui := checkHealth_begin (ui w), sent := sent w @ [health_request env],
        in_flight := Suc (in_flight w)\<rparr>"
    using assms by (simp add: click_def checkHealth_call_def fetch_def App_def)
  then have f: "in_flight (click env w) \<noteq> 0" and u: "ui (click env w) = checkHealth_begin (ui w)"
    by simp_all
  from f have "ui (settle out (click env w)) = snd (checkHealth_resume out (ui (click env w)))"
    by (simp add: settle_eq)
  then show "ui (settle out (click env w)) = snd (checkHealth out (ui w))"
    by (simp only: u checkHealth_def)
  then show "\<not> loading (ui (settle out (click env w)))"
    by (simp add: checkHealth_def resume_loading)
qed

section \<open>The uptime rendering\<close>



section \<open>Failures\<close>

text \<open>
  C2. A response with a status code outside 200 to 299 ends the call in the failure state:
  the error message is \<^verbatim>\<open>HTTP error! status: \<close> followed by the digits of the status code,
  so it contains them; the report held before is discarded; the page shows the message and
  no report.
\<close>

theorem checkHealth_http_error:
  assumes "\<not> ok r"
  shows "checkHealth (Fulfilled r) s =
           (None, \<lparr>healthData = None, loading = False,
                   error = Some (''HTTP error! status: '' @ digits (http_status r))\<rparr>)
       \<and> sublist (digits (http_status r)) (''HTTP error! status: '' @ digits (http_status r))
       \<and> error_panel (App env (snd (checkHealth (Fulfilled r) s))) =
           Some (''HTTP error! status: '' @ digits (http_status r))
       \<and> report_panel (App env (snd (checkHealth (Fulfilled r) s))) = None"
proof -
  have "checkHealth (Fulfilled r) s =
      (None, \<lparr>healthData = None, loading = False,
              error = Some (''HTTP error! status: '' @ digits (http_status r))\<rparr>)"
    using assms by (simp add: checkHealth_def resume_not_ok)
  moreover have "sublist (digits (http_status r)) (''HTTP error! status: '' @ digits (http_status r))"
    by (rule suffix_imp_sublist) (simp add: suffix_def)
  ultimately show ?thesis
    by (simp add: App_def)
qed

theorem checkHealth_http_error_witness:
  "\<not> ok \<lparr>http_status = 403, json = Inl NonError\<rparr>
   \<and> checkHealth (Fulfilled \<lparr>http_status = 403, json = Inl NonError\<rparr>)
       \<lparr>healthData = Some \<lparr>status = Some ''ok'', timestamp = None, uptime = Some (Num 7),
                            message = None, environment = None\<rparr>,
        loading = False, error = None\<rparr> =
       (None, \<lparr>healthData = None, loading = False, error = Some ''HTTP error! status: 403''\<rparr>)
   \<and> sublist ''403'' ''HTTP error! status: 403''"
proof -
  have h: "\<not> ok \<lparr>http_status = 403, json = Inl NonError\<rparr>"
    by (simp add: ok_def)
  show ?thesis
    using h checkHealth_http_error [OF h]
    by (simp add: digits_403)
qed

text \<open>
  C3. When \<^verbatim>\<open>fetch\<close> rejects with an \<^verbatim>\<open>Error\<close>, the call ends in the failure state whose
  message is exactly the message of that error, and no report is held. The page shows the
  message in the error panel; the panel is present for every message but the empty one,
  which \<^verbatim>\<open>error && ...\<close> takes for false. A rejection with \<^verbatim>\<open>Failed to fetch\<close> shows exactly
  that text.
\<close>

theorem checkHealth_transport_failure:
  "checkHealth (Rejected (Error m)) s =
     (None, \<lparr>healthData = None, loading = False, error = Some m\<rparr>)
   \<and> error_panel (App env (snd (checkHealth (Rejected (Error m)) s))) =
       (if m = [] then None else Some m)
   \<and> report_panel (App env (snd (checkHealth (Rejected (Error m)) s))) = None
   \<and> error_panel (App env (snd (checkHealth (Rejected (Error ''Failed to fetch'')) s))) =
       Some ''Failed to fetch''"
  by (simp add: checkHealth_def resume_rejected App_def)




text \<open>
  C8. An invocation of \<^verbatim>\<open>checkHealth\<close> always completes normally, and no value ever
  escapes one in any run of the dashboard. Whatever the body of the \<^verbatim>\<open>try\<close> throws is
  turned into the failure state; it throws the value \<^verbatim>\<open>fetch\<close> rejects with (an \<^verbatim>\<open>Error\<close> or
  not), an \<^verbatim>\<open>Error\<close> for a status that is not a success, and the value the parser rejects
  with.
\<close>

theorem failures_are_caught:
  "fst (checkHealth out s) = None
   \<and> unhandled (run env es world0) = []
   \<and> (fst (try_block out s) = Some e \<longrightarrow>
        snd (checkHealth out s) =
          \<lparr>healthData = None, loading = False,
           error = Some (case e of Error m \<Rightarrow> m | NonError \<Rightarrow> ''An unknown error occurred'')\<rparr>)
   \<and> fst (try_block (Rejected e) s) = Some e
   \<and> (\<not> ok r \<longrightarrow>
        fst (try_block (Fulfilled r) s) =
          Some (Error (''HTTP error! status: '' @ digits (http_status r))))
   \<and> (ok r \<and> json r = Inl e \<longrightarrow> fst (try_block (Fulfilled r) s) = Some e)"
proof -
  have "dashboard_invariant (run env es world0)"
    by (rule invariant_reachable)
  then have "unhandled (run env es world0) = []"
    by (simp add: dashboard_invariant_def)
  moreover have "fst (try_block out s) = fst (try_block out (checkHealth_begin s))"
    by (rule try_block_state)
  ultimately show ?thesis
    by (simp add: checkHealth_def resume_cases try_block_def split: option.splits)
qed

theorem failures_are_caught_witness:
  "checkHealth (Rejected NonError) \<lparr>healthData = None, loading = False, error = None\<rparr> =
     (None, \<lparr>healthData = None, loading = False, error = Some ''An unknown error occurred''\<rparr>)
   \<and> \<not> ok \<lparr>http_status = 500, json = Inl NonError\<rparr>
   \<and> fst (try_block (Fulfilled \<lparr>http_status = 500, json = Inl NonError\<rparr>)
        \<lparr>healthData = None, loading = False, error = None\<rparr>) =
       Some (Error ''HTTP error! status: 500'')"
proof -
  have t: "fst (try_block (Rejected NonError) \<lparr>healthData = None, loading = False, error = None\<rparr>)
      = Some NonError"
    by (simp add: try_block_def)
  have h: "\<not> ok \<lparr>http_status = 500, json = Inl NonError\<rparr>"
    by (simp add: ok_def)
  have d: "digits 500 = ''500''" by code_simp
  note f = failures_are_caught [where out = "Rejected NonError" and e = NonError
      and s = "\<lparr>healthData = None, loading = False, error = None\<rparr>"
      and r = "\<lparr>http_status = 500, json = Inl NonError\<rparr>"]
  show ?thesis
    using t h f by (simp add: prod_eq_iff d)
qed

section \<open>Success\<close>

text \<open>
  C6. A response with a success status whose body parses to a payload ends the call in
  the success state: the payload replaces whatever report was held, the error is
  \<^verbatim>\<open>null\<close>, loading is over, and the page shows the report and no error.
\<close>

theorem checkHealth_success:
  assumes "ok r" and "json r = Inr data"
  shows "checkHealth (Fulfilled r) s =
           (None, \<lparr>healthData = Some data, loading = False, error = None\<rparr>)
       \<and> report_panel (App env (snd (checkHealth (Fulfilled r) s))) = Some (render_report data)
       \<and> error_panel (App env (snd (checkHealth (Fulfilled r) s))) = None"
  using assms
  by (simp add: checkHealth_def resume_success checkHealth_begin_eq App_def)

theorem checkHealth_success_witness:
  "ok \<lparr>http_status = 200,
       json = Inr \<lparr>status = Some ''ok'', timestamp = Some ''2024-01-01T00:00:00.000Z'',
                   uptime = Some (Num 3665), message = Some ''Service is healthy'',
                   environment = Some ''production''\<rparr>\<rparr>
   \<and> checkHealth
        (Fulfilled \<lparr>http_status = 200,
          json = Inr \<lparr>status = Some ''ok'', timestamp = Some ''2024-01-01T00:00:00.000Z'',
                      uptime = Some (Num 3665), message = Some ''Service is healthy'',
                      environment = Some ''production''\<rparr>\<rparr>)
        \<lparr>healthData = None, loading = False, error = Some ''Failed to fetch''\<rparr> =
      (None,
       \<lparr>healthData = Some \<lparr>status = Some ''ok'', timestamp = Some ''2024-01-01T00:00:00.000Z'',
                      uptime = Some (Num 3665), message = Some ''Service is healthy'',
                      environment = Some ''production''\<rparr>,
        loading = False, error = None\<rparr>)
   \<and> report_panel (App None (snd (checkHealth
        (Fulfilled \<lparr>http_status = 200,
          json = Inr \<lparr>status = Some ''ok'', timestamp = Some ''2024-01-01T00:00:00.000Z'',
                      uptime = Some (Num 3665), message = Some ''Service is healthy'',
                      environment = Some ''production''\<rparr>\<rparr>)
        \<lparr>healthData = None, loading = False, error = Some ''Failed to fetch''\<rparr>))) =
      Some \<lparr>heading = ''Backend Status: ok'', environment_text = ''production'',
            uptime_text = ''1h 1m 5s'',
            last_check = toLocaleTimeString ''2024-01-01T00:00:00.000Z'',
            message_text = ''Service is healthy''\<rparr>"
proof -
  let ?d = "\<lparr>status = Some ''ok'', timestamp = Some ''2024-01-01T00:00:00.000Z'',
                      uptime = Some (Num 3665), message = Some ''Service is healthy'',
                      environment = Some ''production''\<rparr>"
  let ?r = "\<lparr>http_status = 200, json = Inr ?d\<rparr>"
  have h1: "ok ?r" by (simp add: ok_def)
  have h2: "json ?r = Inr ?d" by simp
  have rr: "render_report ?d =
      \<lparr>heading = ''Backend Status: ok'', environment_text = ''production'',
            uptime_text = ''1h 1m 5s'',
            last_check = toLocaleTimeString ''2024-01-01T00:00:00.000Z'',
            message_text = ''Service is healthy''\<rparr>"
    by (simp add: render_report_def ToNumber_def jsx_text_def formatUptime_3665)
  note t = checkHealth_success [OF h1 h2,
        where s = "\<lparr>healthData = None, loading = False, error = Some ''Failed to fetch''\<rparr>"
          and env = None, unfolded rr]
  show ?thesis
    using h1 t by blast
qed

section \<open>Triggering\<close>

text \<open>
  C7. A click while the page is not loading sets the loading flag, clears the error, keeps
  the report, and issues exactly one request: a GET to the base URL followed by
  \<^verbatim>\<open>/api/health\<close>. The base URL is the configured one, or \<^verbatim>\<open>http://localhost:8000\<close> when none
  is configured.
\<close>

theorem trigger_issues_request:
  assumes "\<not> loading (ui w)"
  shows "step env Click w =
           w\<lparr>ui := \<lparr>healthData = healthData (ui w), loading = True, error = None\<rparr>,
             sent := sent w @
               [\<lparr>url = BACKEND_URL env @ ''/api/health'', http_method = ''GET'',
                 headers = [(''Content-Type'', ''application/json'')]\<rparr>],
             in_flight := Suc (in_flight w)\<rparr>
       \<and> BACKEND_URL None = ''http://localhost:8000''
       \<and> BACKEND_URL (Some (c # cs)) = c # cs"
  using assms
  by (simp add: click_def checkHealth_call_def fetch_def App_def checkHealth_begin_eq health_request_def BACKEND_URL_def)

theorem trigger_issues_request_witness:
  "\<not> loading (ui world0)
   \<and> step None Click world0 =
       \<lparr>ui = \<lparr>healthData = None, loading = True, error = None\<rparr>,
        sent = [\<lparr>url = ''http://localhost:8000/api/health'', http_method = ''GET'',
                 headers = [(''Content-Type'', ''application/json'')]\<rparr>],
        in_flight = 1, unhandled = []\<rparr>"
proof -
  have h: "\<not> loading (ui world0)" by (simp add: world0_def)
  show ?thesis
    using h trigger_issues_request [OF h, of None]
    by (simp add: world0_def)
qed

text \<open>
  C5. In every state the dashboard can reach, at most one call is outstanding, one is
  outstanding exactly while the page is loading, and the button is disabled exactly then.
  While loading, a click changes nothing (so it issues no request), and the settlement of
  the outstanding call, whatever it is, ends the loading and leaves no call outstanding.
\<close>

theorem single_flight:
  "(let w = run env es world0 in
      in_flight w \<le> 1
      \<and> (in_flight w = 1) = loading (ui w)
      \<and> button_disabled (App env (ui w)) = loading (ui w)
      \<and> (loading (ui w) \<longrightarrow>
            step env Click w = w
          \<and> \<not> loading (ui (step env (Settle out) w))
          \<and> in_flight (step env (Settle out) w) = 0))"
proof -
  have inv: "dashboard_invariant (run env es world0)"
    by (rule invariant_reachable)
  then have "dashboard_invariant (step env (Settle out) (run env es world0))"
    by (rule invariant_step)
  moreover have "loading (ui (run env es world0)) \<Longrightarrow>
      \<not> loading (ui (step env (Settle out) (run env es world0)))"
    using inv resume_loading [of out "ui (run env es world0)"]
    by (simp add: dashboard_invariant_def settle_eq)
  ultimately show ?thesis
    using inv
    by (auto simp: Let_def dashboard_invariant_def click_def checkHealth_call_def fetch_def App_def split: if_splits)
qed

theorem single_flight_witness:
  "loading (ui (run None [Click] world0))
   \<and> in_flight (run None [Click] world0) = 1
   \<and> step None Click (run None [Click] world0) = run None [Click] world0
   \<and> \<not> loading (ui (step None (Settle (Rejected NonError)) (run None [Click] world0)))"
proof -
  have l: "loading (ui (run None [Click] world0))"
    by (simp add: world0_def click_def checkHealth_call_def fetch_def App_def checkHealth_begin_eq)
  show ?thesis
    using l single_flight [of None "[Click]" "Rejected NonError"]
    by (simp add: Let_def)
qed

section \<open>Successive calls\<close>

text \<open>
  C9. The state a call of \<^verbatim>\<open>checkHealth\<close> ends in depends on how that call settles and on
  nothing else: after two calls in sequence the state, and with it the page, is the one
  the second call produces from any state whatever. The same holds of two clicks, each
  settled before the next.
\<close>

theorem sequential_calls_independent:
  "checkHealth out2 (snd (checkHealth out1 s)) = checkHealth out2 s'
   \<and> App env (snd (checkHealth out2 (snd (checkHealth out1 s)))) =
       App env (snd (checkHealth out2 s'))
   \<and> ui (run env [Click, Settle out1, Click, Settle out2] world0) = snd (checkHealth out2 s')"
proof -
  have a: "checkHealth out2 (snd (checkHealth out1 s)) = checkHealth out2 s'"
    by (rule checkHealth_state_free)
  let ?w = "settle out1 (click env world0)"
  have "\<not> loading (ui world0)"
    by (simp add: world0_def)
  then have "\<not> loading (ui ?w)"
    by (rule click_then_settle)
  then have "ui (settle out2 (click env ?w)) = snd (checkHealth out2 (ui ?w))"
    by (rule click_then_settle)
  also have "\<dots> = snd (checkHealth out2 s')"
    by (simp only: checkHealth_state_free [of out2 "ui ?w" s'])
  finally have "ui (run env [Click, Settle out1, Click, Settle out2] world0) =
      snd (checkHealth out2 s')"
    by simp
  with a show ?thesis
    by simp
qed

text \<open>
  C10. After a completed call of \<^verbatim>\<open>checkHealth\<close>, and in every state the dashboard can
  reach, the error or the report is \<^verbatim>\<open>null\<close>; the page never shows the error panel and the
  report panel together.
\<close>

theorem error_and_report_exclusive:
  "(error (snd (checkHealth out s)) = None \<or> healthData (snd (checkHealth out s)) = None)
   \<and> (error_panel (App env (snd (checkHealth out s))) = None
      \<or> report_panel (App env (snd (checkHealth out s))) = None)
   \<and> (error (ui (run env es world0)) = None \<or> healthData (ui (run env es world0)) = None)
   \<and> (error_panel (App env (ui (run env es world0))) = None
      \<or> report_panel (App env (ui (run env es world0))) = None)"
proof -
  have "dashboard_invariant (run env es world0)"
    by (rule invariant_reachable)
  then have "error (ui (run env es world0)) = None \<or> healthData (ui (run env es world0)) = None"
    by (simp add: dashboard_invariant_def)
  moreover have "error (snd (checkHealth out s)) = None \<or> healthData (snd (checkHealth out s)) = None"
    by (simp add: checkHealth_def checkHealth_begin_eq resume_exclusive)
  ultimately show ?thesis
    by (auto simp: App_def)
qed

end
